theory Spec2Isabelle
  imports Main "HOL-Library.Monad_Syntax" "HOL-Library.AList"
begin

section \<open>The LineMap of \<^verbatim>\<open>src/core/linemap.ts\<close>\<close>

text \<open>
  The source is a class \<^verbatim>\<open>LineMap<T>\<close> over a binary tree of mutable
  \<^verbatim>\<open>LineMapNode<T>\<close> objects. The tree functions assign to the fields of nodes
  they reach through several references (a traversal stack, a cursor, the parent), and
  \<^verbatim>\<open>remove\<close> links nodes back into their own subtrees, so the nodes live in an
  explicit store: a node reference is an address, \<^verbatim>\<open>null\<close> is \<open>None\<close>, and every
  function takes the store and returns the updated one.

  Coordinates are JavaScript numbers that the code only compares; they are integers here
  (the timestamps the scheduling wrapper passes). A JavaScript \<^verbatim>\<open>Set<T>\<close> is a
  list without duplicates in insertion order, a \<^verbatim>\<open>Map<T, range>\<close> an association
  list in insertion order.

  Every recursive function and every loop of the source takes a fuel argument that bounds
  the number of nested calls or iterations; the result \<open>None\<close> says that the call did
  not return within the fuel. On a store with a cycle the source itself does not return
  (it loops, or exhausts the call stack).
\<close>

subsection \<open>Sets of tokens\<close>

definition Set_has :: "'t \<Rightarrow> 't list \<Rightarrow> bool" where
  "Set_has x xs = (x \<in> set xs)"

definition Set_add :: "'t \<Rightarrow> 't list \<Rightarrow> 't list" where
  "Set_add x xs = (if x \<in> set xs then xs else xs @ [x])"

definition Set_delete :: "'t \<Rightarrow> 't list \<Rightarrow> 't list" where
  "Set_delete x xs = removeAll x xs"

text \<open>\<^verbatim>\<open>isEqualSets(setA, setB)\<close>: equal sizes, and every item of the first is in the second.\<close>

definition isEqualSets :: "'t list \<Rightarrow> 't list \<Rightarrow> bool" where
  "isEqualSets setA setB =
     (if length setA \<noteq> length setB then False else list_all (\<lambda>item. Set_has item setB) setA)"

subsection \<open>Nodes and the store\<close>

type_synonym addr = nat

record 't LineMapNode =
  lNode :: "addr option"
  rNode :: "addr option"
  height :: int
  start :: int
  end' :: int
  tokens :: "'t list"

record 't store =
  cells :: "addr \<Rightarrow> 't LineMapNode"
  fresh :: addr

definition empty_store :: "'t store" where
  "empty_store =
     \<lparr>cells = (\<lambda>_. \<lparr>lNode = None, rNode = None, height = 0, start = 0, end' = 0, tokens = []\<rparr>),
      fresh = 0\<rparr>"

text \<open>\<^verbatim>\<open>new LineMapNode(start, end, tokens)\<close>: both children \<^verbatim>\<open>null\<close>, height 0.\<close>

definition new_LineMapNode :: "int \<Rightarrow> int \<Rightarrow> 't list \<Rightarrow> 't store \<Rightarrow> addr \<times> 't store" where
  "new_LineMapNode s e ts h =
     (fresh h,
      h\<lparr>cells := (cells h)(fresh h :=
            \<lparr>lNode = None, rNode = None, height = 0, start = s, end' = e, tokens = ts\<rparr>),
        fresh := Suc (fresh h)\<rparr>)"

definition set_lNode :: "addr \<Rightarrow> addr option \<Rightarrow> 't store \<Rightarrow> 't store" where
  "set_lNode a v h = h\<lparr>cells := (cells h)(a := (cells h a)\<lparr>lNode := v\<rparr>)\<rparr>"

definition set_rNode :: "addr \<Rightarrow> addr option \<Rightarrow> 't store \<Rightarrow> 't store" where
  "set_rNode a v h = h\<lparr>cells := (cells h)(a := (cells h a)\<lparr>rNode := v\<rparr>)\<rparr>"

definition set_height :: "addr \<Rightarrow> int \<Rightarrow> 't store \<Rightarrow> 't store" where
  "set_height a v h = h\<lparr>cells := (cells h)(a := (cells h a)\<lparr>height := v\<rparr>)\<rparr>"

definition set_start :: "addr \<Rightarrow> int \<Rightarrow> 't store \<Rightarrow> 't store" where
  "set_start a v h = h\<lparr>cells := (cells h)(a := (cells h a)\<lparr>start := v\<rparr>)\<rparr>"

definition set_end :: "addr \<Rightarrow> int \<Rightarrow> 't store \<Rightarrow> 't store" where
  "set_end a v h = h\<lparr>cells := (cells h)(a := (cells h a)\<lparr>end' := v\<rparr>)\<rparr>"

definition set_tokens :: "addr \<Rightarrow> 't list \<Rightarrow> 't store \<Rightarrow> 't store" where
  "set_tokens a v h = h\<lparr>cells := (cells h)(a := (cells h a)\<lparr>tokens := v\<rparr>)\<rparr>"

text \<open>\<^verbatim>\<open>node?.height ?? -1\<close> for a child reference.\<close>

definition height_or :: "'t store \<Rightarrow> addr option \<Rightarrow> int" where
  "height_or h p = (case p of None \<Rightarrow> - 1 | Some c \<Rightarrow> height (cells h c))"

definition updateHeight :: "addr \<Rightarrow> 't store \<Rightarrow> 't store" where
  "updateHeight a h =
     set_height a (1 + max (height_or h (lNode (cells h a))) (height_or h (rNode (cells h a)))) h"

definition getBalanceFactor :: "'t store \<Rightarrow> addr \<Rightarrow> int" where
  "getBalanceFactor h a = height_or h (rNode (cells h a)) - height_or h (lNode (cells h a))"

subsection \<open>Rotations and balance\<close>

text \<open>
  \<^verbatim>\<open>const bufferedNode = node.lNode!\<close>: with a \<^verbatim>\<open>null\<close> child the next line reads a
  property of \<^verbatim>\<open>null\<close> and throws a TypeError; the rotation then does not return.
\<close>

definition rotateRight :: "addr \<Rightarrow> 't store \<Rightarrow> (addr \<times> 't store) option" where
  "rotateRight a h =
     (case lNode (cells h a) of
        None \<Rightarrow> None
      | Some bufferedNode \<Rightarrow>
          (let h1 = set_lNode a (rNode (cells h bufferedNode)) h;
               h2 = set_rNode bufferedNode (Some a) h1;
               h3 = updateHeight a h2;
               h4 = updateHeight bufferedNode h3
           in Some (bufferedNode, h4)))"

definition rotateLeft :: "addr \<Rightarrow> 't store \<Rightarrow> (addr \<times> 't store) option" where
  "rotateLeft a h =
     (case rNode (cells h a) of
        None \<Rightarrow> None
      | Some bufferedNode \<Rightarrow>
          (let h1 = set_rNode a (lNode (cells h bufferedNode)) h;
               h2 = set_lNode bufferedNode (Some a) h1;
               h3 = updateHeight a h2;
               h4 = updateHeight bufferedNode h3
           in Some (bufferedNode, h4)))"

fun balance :: "nat \<Rightarrow> addr \<Rightarrow> 't store \<Rightarrow> (addr \<times> 't store) option" where
  "balance 0 a h = None"
| "balance (Suc f) a h =
     (let balanceFactor = getBalanceFactor h a in
      if balanceFactor = 2 then
        do {
          h1 \<leftarrow> (case rNode (cells h a) of
                  None \<Rightarrow> Some h
                | Some r \<Rightarrow>
                    if getBalanceFactor h r < 0
                    then do { (r', h') \<leftarrow> rotateRight r h; Some (set_rNode a (Some r') h') }
                    else Some h);
          rotateLeft a h1
        }
      else if balanceFactor = - 2 then
        do {
          h1 \<leftarrow> (case lNode (cells h a) of
                  None \<Rightarrow> Some h
                | Some l \<Rightarrow>
                    if getBalanceFactor h l > 0
                    then do { (l', h') \<leftarrow> rotateLeft l h; Some (set_lNode a (Some l') h') }
                    else Some h);
          rotateRight a h1
        }
      else if \<bar>balanceFactor\<bar> > 2 then
        do {
          h1 \<leftarrow> (case lNode (cells h a) of
                  None \<Rightarrow> Some h
                | Some l \<Rightarrow> do { (l', h') \<leftarrow> balance f l h; Some (set_lNode a (Some l') h') });
          h2 \<leftarrow> (case rNode (cells h1 a) of
                  None \<Rightarrow> Some h1
                | Some r \<Rightarrow> do { (r', h') \<leftarrow> balance f r h1; Some (set_rNode a (Some r') h') });
          balance f a (updateHeight a h2)
        }
      else Some (a, h))"

subsection \<open>Queries on the tree\<close>

fun hasNode :: "nat \<Rightarrow> 't store \<Rightarrow> addr option \<Rightarrow> int \<Rightarrow> int \<Rightarrow> bool option" where
  "hasNode 0 h node s e = None"
| "hasNode (Suc f) h None s e = Some False"
| "hasNode (Suc f) h (Some a) s e =
     (if max s (start (cells h a)) < min e (end' (cells h a)) then Some True
      else if s = e \<and> s = start (cells h a) then Some True
      else do {
        l \<leftarrow> (if e < start (cells h a) then hasNode f h (lNode (cells h a)) s e else Some False);
        if l then Some True
        else if s > start (cells h a) then hasNode f h (rNode (cells h a)) s e
        else Some False
      })"

fun getNodes :: "nat \<Rightarrow> 't store \<Rightarrow> addr option \<Rightarrow> int \<Rightarrow> int \<Rightarrow> addr list option" where
  "getNodes 0 h node s e = None"
| "getNodes (Suc f) h None s e = Some []"
| "getNodes (Suc f) h (Some a) s e =
     do {
       ls \<leftarrow> (if s < start (cells h a) then getNodes f h (lNode (cells h a)) s e else Some []);
       let mid = (if max s (start (cells h a)) < min e (end' (cells h a))
                     \<or> (s = e \<and> s \<ge> start (cells h a) \<and> s < end' (cells h a))
                  then [a] else []);
       rs \<leftarrow> (if e > end' (cells h a) then getNodes f h (rNode (cells h a)) s e else Some []);
       Some (ls @ mid @ rs)
     }"

subsection \<open>insert\<close>

text \<open>
  The two descents of \<^verbatim>\<open>insert\<close> that look for the free slot next to a split node:
  \<^verbatim>\<open>while (minRNode.lNode != null) { stack.put(minRNode); minRNode = minRNode.lNode; }\<close>
  and its mirror image. The stack is a list, its top first.
\<close>

fun descendLeft :: "nat \<Rightarrow> 't store \<Rightarrow> addr \<Rightarrow> addr list \<Rightarrow> (addr \<times> addr list) option" where
  "descendLeft 0 h cur stack = None"
| "descendLeft (Suc f) h cur stack =
     (case lNode (cells h cur) of
        None \<Rightarrow> Some (cur, stack)
      | Some l \<Rightarrow> descendLeft f h l (cur # stack))"

fun descendRight :: "nat \<Rightarrow> 't store \<Rightarrow> addr \<Rightarrow> addr list \<Rightarrow> (addr \<times> addr list) option" where
  "descendRight 0 h cur stack = None"
| "descendRight (Suc f) h cur stack =
     (case rNode (cells h cur) of
        None \<Rightarrow> Some (cur, stack)
      | Some r \<Rightarrow> descendRight f h r (cur # stack))"

text \<open>
  The loop that empties the stack after a split (the same text in both branches of
  \<^verbatim>\<open>insert\<close>): for each popped parent, each child that is present has its height
  updated and is balanced, then the parent's height is updated. The parent itself is
  not balanced.
\<close>

fun fixStack :: "nat \<Rightarrow> addr list \<Rightarrow> 't store \<Rightarrow> 't store option" where
  "fixStack f [] h = Some h"
| "fixStack f (parentNode # stack) h =
     do {
       h1 \<leftarrow> (case lNode (cells h parentNode) of
               None \<Rightarrow> Some h
             | Some l \<Rightarrow>
                 do { (l', h') \<leftarrow> balance f l (updateHeight l h);
                      Some (set_lNode parentNode (Some l') h') });
       h2 \<leftarrow> (case rNode (cells h1 parentNode) of
               None \<Rightarrow> Some h1
             | Some r \<Rightarrow>
                 do { (r', h') \<leftarrow> balance f r (updateHeight r h1);
                      Some (set_rNode parentNode (Some r') h') });
       fixStack f stack (updateHeight parentNode h2)
     }"

text \<open>
  The branch \<^verbatim>\<open>if (start > node.start && start < node.end)\<close>: the node is cut at
  \<open>start\<close>; the new node takes the right part and a copy of the node's tokens with
  the inserted token added.
\<close>

definition splitAtStart :: "nat \<Rightarrow> addr \<Rightarrow> 't \<Rightarrow> int \<Rightarrow> 't store \<Rightarrow> (addr \<times> 't store) option" where
  "splitAtStart f a token s h =
     (let (newNode, h1) = new_LineMapNode s (end' (cells h a)) (Set_add token (tokens (cells h a))) h;
          h2 = set_end a (start (cells h1 newNode)) h1
      in do {
        h3 \<leftarrow> (case rNode (cells h2 a) of
                None \<Rightarrow> Some (updateHeight a (set_rNode a (Some newNode) h2))
              | Some r \<Rightarrow>
                  do {
                    (minRNode, stack) \<leftarrow> descendLeft f h2 r [];
                    fixStack f stack (updateHeight minRNode (set_lNode minRNode (Some newNode) h2))
                  });
        balance f a h3
      })"

text \<open>
  The branch \<^verbatim>\<open>if (end > node.start && end < node.end)\<close>: the node is cut at
  \<open>end\<close>; the new node takes the left part. With no left child the new node is
  linked without a call of \<^verbatim>\<open>updateHeight(node)\<close>.
\<close>

definition splitAtEnd :: "nat \<Rightarrow> addr \<Rightarrow> 't \<Rightarrow> int \<Rightarrow> 't store \<Rightarrow> (addr \<times> 't store) option" where
  "splitAtEnd f a token e h =
     (let (newNode, h1) = new_LineMapNode (start (cells h a)) e (Set_add token (tokens (cells h a))) h;
          h2 = set_start a (end' (cells h1 newNode)) h1
      in do {
        h3 \<leftarrow> (case lNode (cells h2 a) of
                None \<Rightarrow> Some (set_lNode a (Some newNode) h2)
              | Some l \<Rightarrow>
                  do {
                    (maxLNode, stack) \<leftarrow> descendRight f h2 l [];
                    fixStack f stack (updateHeight maxLNode (set_rNode maxLNode (Some newNode) h2))
                  });
        balance f a h3
      })"

text \<open>
  \<^verbatim>\<open>insert(node, token, start, end)\<close>. The five \<^verbatim>\<open>if\<close> statements run in
  sequence, and each of the last four reads \<^verbatim>\<open>node\<close> as the statements before it
  left it (a split moves a bound of the node, \<^verbatim>\<open>balance\<close> may return another node).
\<close>

fun insert_node :: "nat \<Rightarrow> 't store \<Rightarrow> addr option \<Rightarrow> 't \<Rightarrow> int \<Rightarrow> int \<Rightarrow> (addr \<times> 't store) option" where
  "insert_node 0 h node token s e = None"
| "insert_node (Suc f) h None token s e = Some (new_LineMapNode s e [token] h)"
| "insert_node (Suc f) h (Some a) token s e =
     do {
       let h1 = (if s \<le> start (cells h a) \<and> e \<ge> end' (cells h a)
                 then set_tokens a (Set_add token (tokens (cells h a))) h else h);
       (a2, h2) \<leftarrow> (if s > start (cells h1 a) \<and> s < end' (cells h1 a)
                     then splitAtStart f a token s h1 else Some (a, h1));
       (a3, h3) \<leftarrow> (if e > start (cells h2 a2) \<and> e < end' (cells h2 a2)
                     then splitAtEnd f a2 token e h2 else Some (a2, h2));
       (a4, h4) \<leftarrow> (if s < start (cells h3 a3)
                     then do {
                       (l, h') \<leftarrow> insert_node f h3 (lNode (cells h3 a3)) token s
                                     (min e (start (cells h3 a3)));
                       balance f a3 (updateHeight a3 (set_lNode a3 (Some l) h'))
                     }
                     else Some (a3, h3));
       (if e > end' (cells h4 a4)
        then do {
          (r, h') \<leftarrow> insert_node f h4 (rNode (cells h4 a4)) token
                        (max s (end' (cells h4 a4))) e;
          balance f a4 (updateHeight a4 (set_rNode a4 (Some r) h'))
        }
        else Some (a4, h4))
     }"

subsection \<open>remove\<close>

text \<open>
  \<^verbatim>\<open>findRootNode(node, fn)\<close>: a breadth-first search with a queue (a list, its head
  the next node to leave). When some visited node passes the test the function returns
  \<^verbatim>\<open>node\<close>, its own first argument.
\<close>

fun findRootNode_loop ::
  "nat \<Rightarrow> 't store \<Rightarrow> addr \<Rightarrow> (addr \<Rightarrow> bool) \<Rightarrow> addr \<Rightarrow> addr list \<Rightarrow> addr option option" where
  "findRootNode_loop 0 h node fn currentNode queue = None"
| "findRootNode_loop (Suc f) h node fn currentNode queue =
     (if fn currentNode then Some (Some node)
      else
        (let queue1 = (case lNode (cells h currentNode) of None \<Rightarrow> queue | Some l \<Rightarrow> queue @ [l]);
             queue2 = (case rNode (cells h currentNode) of None \<Rightarrow> queue1 | Some r \<Rightarrow> queue1 @ [r])
         in case queue2 of
              [] \<Rightarrow> Some None
            | nextNode # queue3 \<Rightarrow> findRootNode_loop f h node fn nextNode queue3))"

definition findRootNode :: "nat \<Rightarrow> 't store \<Rightarrow> addr option \<Rightarrow> (addr \<Rightarrow> bool) \<Rightarrow> addr option option" where
  "findRootNode f h node fn =
     (case node of None \<Rightarrow> Some None | Some a \<Rightarrow> findRootNode_loop f h a fn a [])"

text \<open>
  The replacement of an emptied node that has two children (the \<^verbatim>\<open>else\<close> of
  \<^verbatim>\<open>if (node.lNode == null || node.rNode == null)\<close>). Both branches descend along
  \<^verbatim>\<open>rNode\<close>. After the descent the left-heavy branch assigns \<^verbatim>\<open>nNode.lNode = node.lNode\<close>
  and the other branch \<^verbatim>\<open>nNode.rNode = node.rNode\<close>; neither assigns the other child
  of \<^verbatim>\<open>nNode\<close>.
\<close>

definition replaceByNeighbour :: "nat \<Rightarrow> addr \<Rightarrow> 't store \<Rightarrow> (addr option \<times> 't store) option" where
  "replaceByNeighbour f a h =
     (if getBalanceFactor h a < 0 then
        (case lNode (cells h a) of
           None \<Rightarrow> None
         | Some l \<Rightarrow>
             do {
               (nNode, stack) \<leftarrow> descendRight f h l [];
               let (stack1, h1) =
                 (case lNode (cells h nNode) of
                    None \<Rightarrow> (stack, h)
                  | Some nl \<Rightarrow>
                      (case stack of
                         [] \<Rightarrow> ([], h)
                       | parentNNode # rest \<Rightarrow>
                           (rest, updateHeight parentNNode (set_rNode parentNNode (Some nl) h))));
               let h2 = set_lNode nNode (lNode (cells h1 a)) h1;
               let h3 = fold updateHeight stack1 h2;
               (n', h4) \<leftarrow> balance f nNode (updateHeight nNode h3);
               Some (Some n', h4)
             })
      else
        (case rNode (cells h a) of
           None \<Rightarrow> None
         | Some r \<Rightarrow>
             do {
               (nNode, stack) \<leftarrow> descendRight f h r [];
               let (stack1, h1) =
                 (case rNode (cells h nNode) of
                    None \<Rightarrow> (stack, h)
                  | Some nr \<Rightarrow>
                      (case stack of
                         [] \<Rightarrow> ([], h)
                       | parentNNode # rest \<Rightarrow>
                           (rest, updateHeight parentNNode (set_lNode parentNNode (Some nr) h))));
               let h2 = set_rNode nNode (rNode (cells h1 a)) h1;
               let h3 = fold updateHeight stack1 h2;
               (n', h4) \<leftarrow> balance f nNode (updateHeight nNode h3);
               Some (Some n', h4)
             }))"

text \<open>
  The two merge loops that run when tokens remain in the node. \<open>cur\<close> is the loop
  variable (\<^verbatim>\<open>lNode\<close>, then \<^verbatim>\<open>rNode\<close>), \<^verbatim>\<open>stack.pop()\<close> on an empty stack is
  \<^verbatim>\<open>null\<close>. The second loop tests \<^verbatim>\<open>rNode.rNode != null\<close> and then moves to
  \<^verbatim>\<open>rNode.lNode\<close>.
\<close>

fun mergeLeft :: "nat \<Rightarrow> addr \<Rightarrow> addr option \<Rightarrow> addr list \<Rightarrow> 't store \<Rightarrow> 't store option" where
  "mergeLeft 0 a cur stack h = None"
| "mergeLeft (Suc f) a None stack h = Some h"
| "mergeLeft (Suc f) a (Some l) stack h =
     (if isEqualSets (tokens (cells h l)) (tokens (cells h a)) then
        (let h1 = set_start a (start (cells h l)) h in
         case stack of
           parentLNode # rest \<Rightarrow>
             mergeLeft f a (Some parentLNode) rest
               (updateHeight parentLNode (set_rNode parentLNode (lNode (cells h1 l)) h1))
         | [] \<Rightarrow>
             mergeLeft f a None []
               (updateHeight a (set_lNode a (lNode (cells h1 l)) h1)))
      else if rNode (cells h l) \<noteq> None then mergeLeft f a (rNode (cells h l)) (l # stack) h
      else (case stack of
              parentLNode # rest \<Rightarrow> mergeLeft f a (Some parentLNode) rest h
            | [] \<Rightarrow> mergeLeft f a None [] h))"

fun mergeRight :: "nat \<Rightarrow> addr \<Rightarrow> addr option \<Rightarrow> addr list \<Rightarrow> 't store \<Rightarrow> 't store option" where
  "mergeRight 0 a cur stack h = None"
| "mergeRight (Suc f) a None stack h = Some h"
| "mergeRight (Suc f) a (Some r) stack h =
     (if isEqualSets (tokens (cells h r)) (tokens (cells h a)) then
        (let h1 = set_end a (end' (cells h r)) h in
         case stack of
           parentRNode # rest \<Rightarrow>
             mergeRight f a (Some parentRNode) rest
               (updateHeight parentRNode (set_lNode parentRNode (rNode (cells h1 r)) h1))
         | [] \<Rightarrow>
             mergeRight f a None []
               (updateHeight a (set_rNode a (rNode (cells h1 r)) h1)))
      else if rNode (cells h r) \<noteq> None then mergeRight f a (lNode (cells h r)) (r # stack) h
      else (case stack of
              parentRNode # rest \<Rightarrow> mergeRight f a (Some parentRNode) rest h
            | [] \<Rightarrow> mergeRight f a None [] h))"

text \<open>
  \<^verbatim>\<open>remove(node, token)\<close>. The search result is \<^verbatim>\<open>node\<close> itself or \<^verbatim>\<open>null\<close>, so
  the recursive call goes to a child of \<^verbatim>\<open>node\<close>: the left one when a left child
  anywhere below holds the token, else the right one when a right child does.
\<close>

fun remove_node :: "nat \<Rightarrow> 't store \<Rightarrow> addr option \<Rightarrow> 't \<Rightarrow> (addr option \<times> 't store) option" where
  "remove_node 0 h node token = None"
| "remove_node (Suc f) h None token = Some (None, h)"
| "remove_node (Suc f) h (Some a) token =
     do {
       sideL \<leftarrow> findRootNode f h (Some a)
                 (\<lambda>n. case lNode (cells h n) of None \<Rightarrow> False
                       | Some l \<Rightarrow> Set_has token (tokens (cells h l)));
       h1 \<leftarrow> (case sideL of
               Some sideTokenNode \<Rightarrow>
                 do { (l', h') \<leftarrow> remove_node f h (lNode (cells h sideTokenNode)) token;
                      Some (set_lNode sideTokenNode l' h') }
             | None \<Rightarrow>
                 do {
                   sideR \<leftarrow> findRootNode f h (Some a)
                             (\<lambda>n. case rNode (cells h n) of None \<Rightarrow> False
                                   | Some r \<Rightarrow> Set_has token (tokens (cells h r)));
                   case sideR of
                     Some sideTokenNode \<Rightarrow>
                       do { (r', h') \<leftarrow> remove_node f h (rNode (cells h sideTokenNode)) token;
                            Some (set_rNode sideTokenNode r' h') }
                   | None \<Rightarrow> Some h
                 });
       if Set_has token (tokens (cells h1 a)) then
         (let h2 = updateHeight a (set_tokens a (Set_delete token (tokens (cells h1 a))) h1) in
          if length (tokens (cells h2 a)) = 0 then
            (if lNode (cells h2 a) = None \<or> rNode (cells h2 a) = None
             then Some (case lNode (cells h2 a) of Some l \<Rightarrow> Some l | None \<Rightarrow> rNode (cells h2 a), h2)
             else replaceByNeighbour f a h2)
          else
            do {
              h3 \<leftarrow> mergeLeft f a (lNode (cells h2 a)) [] h2;
              h4 \<leftarrow> mergeRight f a (rNode (cells h3 a)) [] h3;
              (n', h5) \<leftarrow> balance f a h4;
              Some (Some n', h5)
            })
       else Some (Some a, h1)
     }"

subsection \<open>The tree generator\<close>

text \<open>
  One run of \<^verbatim>\<open>for (const token of n.tokens) if (false == sentTokens.has(token)) { ... yield }\<close>:
  the tokens of node \<open>n\<close> that were not sent before, each with the bounds of \<open>n\<close>.
\<close>

definition emitTokens ::
  "'t store \<Rightarrow> addr \<Rightarrow> 't list \<times> ('t \<times> int \<times> int) list \<Rightarrow> 't list \<times> ('t \<times> int \<times> int) list" where
  "emitTokens h n st =
     fold (\<lambda>token (sentTokens, out).
             if Set_has token sentTokens then (sentTokens, out)
             else (Set_add token sentTokens, out @ [(token, start (cells h n), end' (cells h n))]))
          (tokens (cells h n)) st"

definition hasChild :: "'t store \<Rightarrow> addr \<Rightarrow> bool" where
  "hasChild h n = (lNode (cells h n) \<noteq> None \<or> rNode (cells h n) \<noteq> None)"

text \<open>
  \<^verbatim>\<open>getTreeGenerator(node)\<close>, run for at most the given number of iterations of its
  \<^verbatim>\<open>while\<close> loop: the triples yielded so far, and whether the generator has finished.
\<close>

fun getTreeGenerator_loop ::
  "nat \<Rightarrow> 't store \<Rightarrow> addr option \<Rightarrow> addr list \<Rightarrow> 't list \<times> ('t \<times> int \<times> int) list
     \<Rightarrow> ('t \<times> int \<times> int) list \<times> bool" where
  "getTreeGenerator_loop 0 h node stack st = (snd st, False)"
| "getTreeGenerator_loop (Suc f) h None stack st = (snd st, True)"
| "getTreeGenerator_loop (Suc f) h (Some n) stack st =
     (case (case lNode (cells h n) of
              None \<Rightarrow> Some st
            | Some l \<Rightarrow> if hasChild h l then None else Some (emitTokens h l st)) of
        None \<Rightarrow> getTreeGenerator_loop f h (lNode (cells h n)) (n # stack) st
      | Some st1 \<Rightarrow>
          (let st2 = emitTokens h n st1 in
           case (case rNode (cells h n) of
                   None \<Rightarrow> Some st2
                 | Some r \<Rightarrow> if hasChild h r then None else Some (emitTokens h r st2)) of
             None \<Rightarrow> getTreeGenerator_loop f h (rNode (cells h n)) (n # stack) st2
           | Some st3 \<Rightarrow>
               (case stack of
                  [] \<Rightarrow> getTreeGenerator_loop f h None [] st3
                | popped # rest \<Rightarrow> getTreeGenerator_loop f h (Some popped) rest st3)))"

definition getTreeGenerator :: "nat \<Rightarrow> 't store \<Rightarrow> addr option \<Rightarrow> ('t \<times> int \<times> int) list \<times> bool" where
  "getTreeGenerator f h node = getTreeGenerator_loop f h node [] ([], [])"

subsection \<open>The class LineMap\<close>

record 't LineMap =
  tokenRangeMap :: "('t \<times> (int \<times> int)) list"
  rootNode :: "addr option"
  nodes :: "'t store"

definition new_LineMap :: "'t LineMap" where
  "new_LineMap = \<lparr>tokenRangeMap = [], rootNode = None, nodes = empty_store\<rparr>"

text \<open>
  \<^verbatim>\<open>assertRange\<close> throws \<^verbatim>\<open>new Error(`Start (${start}) cannot be more than end (${end})`)\<close>;
  the error value keeps the two numbers of the message. It is the only error the class
  throws on purpose, the one the specification files under RangeError.
\<close>

datatype error = StartMoreThanEnd int int

definition assertRange :: "int \<Rightarrow> int \<Rightarrow> error + unit" where
  "assertRange s e = (if e < s then Inl (StartMoreThanEnd s e) else Inr ())"

text \<open>The parameter \<^verbatim>\<open>end: number = start\<close>: \<open>None\<close> is the omitted argument.\<close>

definition end_or :: "int \<Rightarrow> int option \<Rightarrow> int" where
  "end_or s eo = (case eo of None \<Rightarrow> s | Some e \<Rightarrow> e)"

definition LineMap_size :: "'t LineMap \<Rightarrow> nat" where
  "LineMap_size m = length (tokenRangeMap m)"

definition has :: "'t LineMap \<Rightarrow> 't \<Rightarrow> bool" where
  "has m token = (map_of (tokenRangeMap m) token \<noteq> None)"

definition getRange :: "'t LineMap \<Rightarrow> 't \<Rightarrow> (int \<times> int) option" where
  "getRange m token =
     (case map_of (tokenRangeMap m) token of
        None \<Rightarrow> None
      | Some rng \<Rightarrow> Some (fst rng, snd rng))"

text \<open>
  \<^verbatim>\<open>filled\<close> and \<^verbatim>\<open>getKeys\<close> assign to no field of the map or of a node, so they
  return a result only: \<open>Inl\<close> the error thrown, \<open>Inr\<close> the value returned.
\<close>

definition filled :: "nat \<Rightarrow> 't LineMap \<Rightarrow> int \<Rightarrow> int option \<Rightarrow> (error + bool) option" where
  "filled f m s eo =
     (case assertRange s (end_or s eo) of
        Inl err \<Rightarrow> Some (Inl err)
      | Inr _ \<Rightarrow> map_option Inr (hasNode f (nodes m) (rootNode m) s (end_or s eo)))"

definition collectTokens :: "'t store \<Rightarrow> addr list \<Rightarrow> 't list" where
  "collectTokens h ns = fold (\<lambda>node result. fold Set_add (tokens (cells h node)) result) ns []"

definition getKeys :: "nat \<Rightarrow> 't LineMap \<Rightarrow> int \<Rightarrow> int option \<Rightarrow> (error + 't list) option" where
  "getKeys f m s eo =
     (case assertRange s (end_or s eo) of
        Inl err \<Rightarrow> Some (Inl err)
      | Inr _ \<Rightarrow>
          do {
            ns \<leftarrow> (if rootNode m \<noteq> None then getNodes f (nodes m) (rootNode m) s (end_or s eo)
                    else Some []);
            Some (Inr (collectTokens (nodes m) ns))
          })"

text \<open>
  \<^verbatim>\<open>set\<close> and \<^verbatim>\<open>remove\<close> return their result together with the map as the call
  leaves it. In \<^verbatim>\<open>set\<close> the only assignment to \<^verbatim>\<open>_tokenRangeMap\<close> is in the
  \<^verbatim>\<open>else\<close> branch, for a token that the map does not hold.
\<close>

definition LineMap_set ::
  "nat \<Rightarrow> 't \<Rightarrow> int \<Rightarrow> int option \<Rightarrow> 't LineMap \<Rightarrow> ((error + unit) \<times> 't LineMap) option" where
  "LineMap_set f token s eo m =
     (case assertRange s (end_or s eo) of
        Inl err \<Rightarrow> Some (Inl err, m)
      | Inr _ \<Rightarrow>
          (case map_of (tokenRangeMap m) token of
             Some (currentStart, currentEnd) \<Rightarrow>
               if s \<noteq> currentStart \<or> end_or s eo \<noteq> currentEnd then
                 do {
                   (root1, h1) \<leftarrow> remove_node f (nodes m) (rootNode m) token;
                   (root2, h2) \<leftarrow> insert_node f h1 root1 token s (end_or s eo);
                   Some (Inr (), m\<lparr>rootNode := Some root2, nodes := h2\<rparr>)
                 }
               else Some (Inr (), m)
           | None \<Rightarrow>
               do {
                 (root1, h1) \<leftarrow> insert_node f (nodes m) (rootNode m) token s (end_or s eo);
                 Some (Inr (), m\<lparr>rootNode := Some root1, nodes := h1,
                                 tokenRangeMap := AList.update token (s, end_or s eo) (tokenRangeMap m)\<rparr>)
               }))"

definition LineMap_remove :: "nat \<Rightarrow> 't \<Rightarrow> 't LineMap \<Rightarrow> (bool \<times> 't LineMap) option" where
  "LineMap_remove f token m =
     (if map_of (tokenRangeMap m) token \<noteq> None then
        do {
          (root1, h1) \<leftarrow> remove_node f (nodes m) (rootNode m) token;
          Some (True, m\<lparr>tokenRangeMap := AList.delete token (tokenRangeMap m),
                        rootNode := root1, nodes := h1\<rparr>)
        }
      else Some (False, m))"

text \<open>
  \<^verbatim>\<open>public *[Symbol.iterator]() { return getTreeGenerator(this._rootNode); }\<close>
  The method is a generator function (the \<^verbatim>\<open>*\<close>) whose body has no \<^verbatim>\<open>yield\<close>: the
  generator it makes yields nothing and finishes at once, and the tree generator it
  created for the root is the value it returns with \<^verbatim>\<open>done: true\<close>, which
  \<^verbatim>\<open>for ... of\<close> does not read. A run of a generator is the list of the values it
  yields and the value it returns; the returned tree generator is named by its argument.
\<close>

record ('y, 'r) generator_run =
  yielded :: "'y list"
  returned :: 'r

definition LineMap_iterator :: "'t LineMap \<Rightarrow> ('t \<times> int \<times> int, addr option) generator_run" where
  "LineMap_iterator m = \<lparr>yielded = [], returned = rootNode m\<rparr>"

section \<open>Running a sequence of calls\<close>

text \<open>
  A caller's script: the calls \<^verbatim>\<open>m.set(token, start, end)\<close> (\<^verbatim>\<open>m.set(token, start)\<close> with
  \<open>None\<close> for the end) and \<^verbatim>\<open>m.remove(token)\<close>, one after the other on the same
  map. The result is the map after the last call, or \<open>None\<close> when one of the calls does
  not return. A call of \<^verbatim>\<open>set\<close> that throws leaves the map as it was and the script
  goes on, as a caller that catches the error would.
\<close>

datatype 't call = SetCall 't int "int option" | RemoveCall 't

fun run :: "nat \<Rightarrow> 't call list \<Rightarrow> 't LineMap \<Rightarrow> 't LineMap option" where
  "run f [] m = Some m"
| "run f (SetCall token s eo # calls) m =
     (case LineMap_set f token s eo m of None \<Rightarrow> None | Some (_, m') \<Rightarrow> run f calls m')"
| "run f (RemoveCall token # calls) m =
     (case LineMap_remove f token m of None \<Rightarrow> None | Some (_, m') \<Rightarrow> run f calls m')"

definition reachable :: "'t LineMap \<Rightarrow> bool" where
  "reachable m = (\<exists>f calls. run f calls new_LineMap = Some m)"

section \<open>The vocabulary of the specification\<close>

text \<open>
  The height of a subtree as the specification counts it (\<open>-1\<close> for a missing child),
  computed from the links and not read from the cached field.
\<close>

fun subtree_height :: "nat \<Rightarrow> 't store \<Rightarrow> addr option \<Rightarrow> int option" where
  "subtree_height 0 h p = None"
| "subtree_height (Suc f) h None = Some (- 1)"
| "subtree_height (Suc f) h (Some a) =
     do {
       l \<leftarrow> subtree_height f h (lNode (cells h a));
       r \<leftarrow> subtree_height f h (rNode (cells h a));
       Some (1 + max l r)
     }"

text \<open>
  The overlap condition in the words of the specification's testable property:
  \<open>max(qs,a) < min(qe,b)\<close> or (\<open>qs == qe\<close> and \<open>qs == a\<close>).
\<close>

definition spec_overlap :: "int \<Rightarrow> int \<Rightarrow> int \<Rightarrow> int \<Rightarrow> bool" where
  "spec_overlap qs qe a b = (max qs a < min qe b \<or> (qs = qe \<and> qs = a))"

text \<open>
  The invariants of the specification's data model, stated on the store. A shape is the
  tree of addresses that the links below a root spell out; a store with a cycle below the
  root has no shape.
\<close>

datatype shape = Tip | Br shape addr shape

fun shaped :: "'t store \<Rightarrow> addr option \<Rightarrow> shape \<Rightarrow> bool" where
  "shaped h p Tip = (p = None)"
| "shaped h p (Br l a r) =
     (p = Some a \<and> shaped h (lNode (cells h a)) l \<and> shaped h (rNode (cells h a)) r)"

fun inorder :: "shape \<Rightarrow> addr list" where
  "inorder Tip = []"
| "inorder (Br l a r) = inorder l @ a # inorder r"

fun depth :: "shape \<Rightarrow> nat" where
  "depth Tip = 0"
| "depth (Br l a r) = Suc (max (depth l) (depth r))"

text \<open>
  Ordering: every node to the left of another, in the order of the tree, ends at or
  before the start of the other. For a node this says that its left subtree lies at or
  below its start and its right subtree at or above its end.
\<close>

definition ordered :: "'t store \<Rightarrow> shape \<Rightarrow> bool" where
  "ordered h sh = sorted_wrt (\<lambda>x y. end' (cells h x) \<le> start (cells h y)) (inorder sh)"

text \<open>
  Coverage: the nodes that hold token \<open>t\<close>, taken from left to right, are fragments
  that follow one another without a gap from \<open>a\<close> to \<open>b\<close>, the range registered
  for \<open>t\<close>.
\<close>

fun fragment_chain :: "'t store \<Rightarrow> int \<Rightarrow> int \<Rightarrow> addr list \<Rightarrow> bool" where
  "fragment_chain h a b [] = (a = b)"
| "fragment_chain h a b (n # ns) =
     (start (cells h n) = a \<and> a \<le> end' (cells h n) \<and> fragment_chain h (end' (cells h n)) b ns)"

definition fragments :: "'t store \<Rightarrow> shape \<Rightarrow> 't \<Rightarrow> int \<Rightarrow> int \<Rightarrow> bool" where
  "fragments h sh t a b =
     fragment_chain h a b (filter (\<lambda>n. t \<in> set (tokens (cells h n))) (inorder sh))"

text \<open>The test by which \<^verbatim>\<open>getNodes\<close> takes a node into its result.\<close>

definition intersects :: "'t store \<Rightarrow> addr \<Rightarrow> int \<Rightarrow> int \<Rightarrow> bool" where
  "intersects h n s e =
     (max s (start (cells h n)) < min e (end' (cells h n))
      \<or> (s = e \<and> s \<ge> start (cells h n) \<and> s < end' (cells h n)))"

section \<open>Evaluating the model on concrete calls\<close>

text \<open>
  The simplifier runs the model on concrete arguments. Fuel is written as a numeral, and
  a bind is evaluated left to right: its continuation is entered only with the value of
  its first part.
\<close>

lemma bind_weak_cong: "m = m' \<Longrightarrow> Option.bind m f = Option.bind m' f"
  by simp

lemma fuel_numeral:
  "balance (numeral k) = balance (Suc (pred_numeral k))"
  "hasNode (numeral k) = hasNode (Suc (pred_numeral k))"
  "getNodes (numeral k) = getNodes (Suc (pred_numeral k))"
  "descendLeft (numeral k) = descendLeft (Suc (pred_numeral k))"
  "descendRight (numeral k) = descendRight (Suc (pred_numeral k))"
  "insert_node (numeral k) = insert_node (Suc (pred_numeral k))"
  "remove_node (numeral k) = remove_node (Suc (pred_numeral k))"
  "findRootNode_loop (numeral k) = findRootNode_loop (Suc (pred_numeral k))"
  "mergeLeft (numeral k) = mergeLeft (Suc (pred_numeral k))"
  "mergeRight (numeral k) = mergeRight (Suc (pred_numeral k))"
  "getTreeGenerator_loop (numeral k) = getTreeGenerator_loop (Suc (pred_numeral k))"
  "subtree_height (numeral k) = subtree_height (Suc (pred_numeral k))"
  by (simp_all add: numeral_eq_Suc)

lemmas model_defs =
  fuel_numeral Set_has_def Set_add_def Set_delete_def isEqualSets_def empty_store_def
  new_LineMapNode_def set_lNode_def set_rNode_def set_height_def set_start_def set_end_def
  set_tokens_def height_or_def updateHeight_def getBalanceFactor_def rotateRight_def
  rotateLeft_def splitAtStart_def splitAtEnd_def findRootNode_def replaceByNeighbour_def
  emitTokens_def hasChild_def getTreeGenerator_def new_LineMap_def assertRange_def end_or_def
  LineMap_size_def has_def getRange_def filled_def collectTokens_def getKeys_def
  LineMap_set_def LineMap_remove_def LineMap_iterator_def Let_def

section \<open>The claims\<close>

text \<open>
  C6. On a fresh LineMap, after \<^verbatim>\<open>set('one',10,20)\<close>, \<^verbatim>\<open>set('two',30,40)\<close> and
  \<^verbatim>\<open>set('three',15,35)\<close>: \<^verbatim>\<open>getKeys(16,19)\<close> is the set of 'one' and 'three',
  \<^verbatim>\<open>getKeys(10,35)\<close> the set of 'one', 'two' and 'three', the point query
  \<^verbatim>\<open>getKeys(17)\<close> the set of 'one' and 'three', and \<^verbatim>\<open>filled(20,30)\<close> is false.
  The three calls return, and so do the four queries.
\<close>

theorem C6_scenario:
  "case run 5 [SetCall ''one'' 10 (Some 20), SetCall ''two'' 30 (Some 40),
               SetCall ''three'' 15 (Some 35)] new_LineMap of
     None \<Rightarrow> False
   | Some m \<Rightarrow>
       map_option (map_sum id set) (getKeys 5 m 16 (Some 19)) = Some (Inr {''one'', ''three''})
       \<and> map_option (map_sum id set) (getKeys 5 m 10 (Some 35))
           = Some (Inr {''one'', ''two'', ''three''})
       \<and> map_option (map_sum id set) (getKeys 5 m 17 None) = Some (Inr {''one'', ''three''})
       \<and> filled 5 m 20 (Some 30) = Some (Inr False)"
  by (simp add: model_defs del: Suc_numeral cong: bind_weak_cong let_weak_cong) auto

text \<open>
  C1. After \<^verbatim>\<open>set(t, a, b)\<close> the call \<^verbatim>\<open>getRange(t)\<close> returns \<open>(a, b)\<close> and
  \<^verbatim>\<open>has(t)\<close> is true, also when \<open>t\<close> was registered with another range before.
  On the code: \<^verbatim>\<open>set('a', 1, 2)\<close> and then \<^verbatim>\<open>set('a', 3, 4)\<close> on a fresh map. The
  second call moves the token in the tree (\<^verbatim>\<open>getKeys(3,4)\<close> finds it, \<^verbatim>\<open>getKeys(1,2)\<close>
  no longer does) and leaves the entry of the index as it was: \<^verbatim>\<open>getRange('a')\<close> is
  still \<open>(1, 2)\<close>.
\<close>

theorem C1_set_again_keeps_old_range:
  "case run 5 [SetCall ''a'' 1 (Some 2), SetCall ''a'' 3 (Some 4)] new_LineMap of
     None \<Rightarrow> False
   | Some m \<Rightarrow>
       has m ''a'' \<and> getRange m ''a'' = Some (1, 2)
       \<and> getKeys 5 m 3 (Some 4) = Some (Inr [''a''])
       \<and> getKeys 5 m 1 (Some 2) = Some (Inr [])"
  by (simp add: model_defs del: Suc_numeral cong: bind_weak_cong let_weak_cong)

text \<open>
  C2. Iterating the map yields every registered token, once per fragment it owns, in
  coordinate order. On the code: after \<^verbatim>\<open>set('one', 10, 20)\<close> on a fresh map the token
  is registered and the iterator of the map yields nothing; the tree generator that the
  iterator returns without running it would yield the one triple. On the tree of three
  tokens and five fragments that \<^verbatim>\<open>set('one',10,20)\<close>, \<^verbatim>\<open>set('two',30,40)\<close>,
  \<^verbatim>\<open>set('three',15,35)\<close> build, the iterator of the map yields nothing either, and the
  tree generator has yielded three triples, one per token, and has not finished after
  30 rounds of its loop.
\<close>

theorem C2_iterator_yields_nothing:
  "(case run 5 [SetCall ''one'' 10 (Some 20)] new_LineMap of
      None \<Rightarrow> False
    | Some m \<Rightarrow>
        has m ''one'' \<and> LineMap_size m = 1
        \<and> yielded (LineMap_iterator m) = []
        \<and> getTreeGenerator 5 (nodes m) (returned (LineMap_iterator m))
            = ([(''one'', 10, 20)], True))
   \<and> (case run 5 [SetCall ''one'' 10 (Some 20), SetCall ''two'' 30 (Some 40),
                  SetCall ''three'' 15 (Some 35)] new_LineMap of
      None \<Rightarrow> False
    | Some m \<Rightarrow>
        LineMap_size m = 3
        \<and> yielded (LineMap_iterator m) = []
        \<and> getTreeGenerator 30 (nodes m) (returned (LineMap_iterator m))
            = ([(''one'', 10, 15), (''three'', 15, 20), (''two'', 30, 35)], False))"
  by (simp add: model_defs del: Suc_numeral cong: bind_weak_cong let_weak_cong)

text \<open>
  C4. After every sequence of \<^verbatim>\<open>set\<close> and \<^verbatim>\<open>remove\<close> calls every node has subtrees
  whose heights differ by at most 1. On the code: \<^verbatim>\<open>set(0, 0, 4)\<close>, \<^verbatim>\<open>set(1, 2, 6)\<close>,
  \<^verbatim>\<open>set(2, 1, 5)\<close>, \<^verbatim>\<open>set(3, 3)\<close> on a fresh map. All four calls return. The right
  child of the root then has no right child and a left subtree of height 1: the cached
  heights give it the balance factor \<open>-2\<close>, and so do the heights counted along the links.
  With ranges that are not points: \<^verbatim>\<open>set('a', 10, 20)\<close>, \<^verbatim>\<open>set('b', 0, 5)\<close>,
  \<^verbatim>\<open>set('c', 30, 40)\<close>, \<^verbatim>\<open>remove('a')\<close> leave a root that is its own left child,
  with the balance factor \<open>-4\<close>.
\<close>

theorem C4_unbalanced_nodes:
  "(case run 5 [SetCall (0::nat) 0 (Some 4), SetCall 1 2 (Some 6), SetCall 2 1 (Some 5),
                SetCall 3 3 None] new_LineMap of
      None \<Rightarrow> False
    | Some m \<Rightarrow>
        (case rootNode m of
           None \<Rightarrow> False
         | Some root \<Rightarrow>
             (case rNode (cells (nodes m) root) of
                None \<Rightarrow> False
              | Some r \<Rightarrow>
                  getBalanceFactor (nodes m) r = - 2
                  \<and> subtree_height 5 (nodes m) (rNode (cells (nodes m) r)) = Some (- 1)
                  \<and> subtree_height 5 (nodes m) (lNode (cells (nodes m) r)) = Some 1)))
   \<and> (case run 5 [SetCall ''a'' 10 (Some 20), SetCall ''b'' 0 (Some 5),
                  SetCall ''c'' 30 (Some 40), RemoveCall ''a''] new_LineMap of
      None \<Rightarrow> False
    | Some m \<Rightarrow>
        (case rootNode m of
           None \<Rightarrow> False
         | Some root \<Rightarrow>
             getBalanceFactor (nodes m) root = - 4
             \<and> lNode (cells (nodes m) root) = Some root))"
  by (simp add: model_defs del: Suc_numeral cong: bind_weak_cong let_weak_cong)

text \<open>
  A node that is its own left child: \<^verbatim>\<open>getNodes\<close> with a range that starts before
  the node calls itself on the same node without end.
\<close>

lemma getNodes_self_loop:
  "lNode (cells h a) = Some a \<Longrightarrow> s < start (cells h a) \<Longrightarrow> getNodes f h (Some a) s e = None"
  by (induction f) simp_all

text \<open>
  C5. When \<^verbatim>\<open>remove\<close> empties a node with two children, the node is replaced by its
  in-order neighbour, the neighbour's remaining child is relinked, and the tree stays
  ordered. On the code: \<^verbatim>\<open>set('a', 10, 20)\<close>, \<^verbatim>\<open>set('b', 0, 5)\<close>, \<^verbatim>\<open>set('c', 30, 40)\<close>
  make the root \<open>[10, 20)\<close> with the children \<open>[0, 5)\<close> and \<open>[30, 40)\<close>;
  \<^verbatim>\<open>remove('a')\<close> empties the root. The new root is the node of 'c' (address 2), its
  left child is that node itself, and the node of 'b' is no longer linked: 'b' is still
  registered, \<^verbatim>\<open>getKeys(30, 40)\<close> answers, and \<^verbatim>\<open>getKeys(0, 5)\<close> follows the left link
  round and round: it returns with no amount of fuel.
\<close>

theorem C5_remove_two_children_links_node_to_itself:
  "case run 5 [SetCall ''a'' 10 (Some 20), SetCall ''b'' 0 (Some 5), SetCall ''c'' 30 (Some 40),
               RemoveCall ''a''] new_LineMap of
     None \<Rightarrow> False
   | Some m \<Rightarrow>
       rootNode m = Some 2
       \<and> tokens (cells (nodes m) 2) = [''c'']
       \<and> start (cells (nodes m) 2) = 30 \<and> end' (cells (nodes m) 2) = 40
       \<and> lNode (cells (nodes m) 2) = Some 2
       \<and> rNode (cells (nodes m) 2) = None
       \<and> has m ''b''
       \<and> getKeys 5 m 30 (Some 40) = Some (Inr [''c''])
       \<and> (\<forall>f. getKeys f m 0 (Some 5) = None)"
proof -
  have "case run 5 [SetCall ''a'' 10 (Some 20), SetCall ''b'' 0 (Some 5),
                    SetCall ''c'' 30 (Some 40), RemoveCall ''a''] new_LineMap of
          None \<Rightarrow> False
        | Some m \<Rightarrow>
            rootNode m = Some 2
            \<and> tokens (cells (nodes m) 2) = [''c'']
            \<and> start (cells (nodes m) 2) = 30 \<and> end' (cells (nodes m) 2) = 40
            \<and> lNode (cells (nodes m) 2) = Some 2
            \<and> rNode (cells (nodes m) 2) = None
            \<and> has m ''b''
            \<and> getKeys 5 m 30 (Some 40) = Some (Inr [''c''])"
    by (simp add: model_defs del: Suc_numeral cong: bind_weak_cong let_weak_cong)
  then obtain m where
    m: "run 5 [SetCall ''a'' 10 (Some 20), SetCall ''b'' 0 (Some 5),
               SetCall ''c'' 30 (Some 40), RemoveCall ''a''] new_LineMap = Some m"
    and obs: "rootNode m = Some 2" "tokens (cells (nodes m) 2) = [''c'']"
      "start (cells (nodes m) 2) = 30" "end' (cells (nodes m) 2) = 40"
      "lNode (cells (nodes m) 2) = Some 2" "rNode (cells (nodes m) 2) = None"
      "has m ''b''" "getKeys 5 m 30 (Some 40) = Some (Inr [''c''])"
    by (auto split: option.splits)
  have "getKeys f m 0 (Some 5) = None" for f
    using getNodes_self_loop[of "nodes m" 2 0 f 5] obs(1,3,5)
    by (simp add: getKeys_def assertRange_def end_or_def)
  with m obs show ?thesis by simp
qed

text \<open>
  C7. \<^verbatim>\<open>getKeys(start, end)\<close> is non-empty exactly when \<^verbatim>\<open>filled(start, end)\<close> is
  true. On the code: after \<^verbatim>\<open>set('a', 20, 30)\<close> and \<^verbatim>\<open>set('b', 0, 10)\<close> on a fresh
  map, \<^verbatim>\<open>filled(5, 20)\<close> is false and \<^verbatim>\<open>getKeys(5, 20)\<close> is \<open>['b']\<close>.
\<close>

theorem C7_filled_false_getKeys_nonempty:
  "case run 5 [SetCall ''a'' 20 (Some 30), SetCall ''b'' 0 (Some 10)] new_LineMap of
     None \<Rightarrow> False
   | Some m \<Rightarrow>
       filled 5 m 5 (Some 20) = Some (Inr False)
       \<and> getKeys 5 m 5 (Some 20) = Some (Inr [''b''])"
  by (simp add: model_defs del: Suc_numeral cong: bind_weak_cong let_weak_cong)

text \<open>
  C8. For \<open>start > end\<close> the operations \<^verbatim>\<open>filled\<close>, \<^verbatim>\<open>getKeys\<close> and \<^verbatim>\<open>set\<close>
  fail with the error of \<^verbatim>\<open>assertRange\<close> (the specification's RangeError), whatever
  the state of the map and before any node is visited (the fuel plays no part), and
  \<^verbatim>\<open>set\<close> leaves the map as it was; \<^verbatim>\<open>filled\<close> and \<^verbatim>\<open>getKeys\<close> never assign.
\<close>

theorem C8_range_validity:
  assumes "e < s"
  shows "filled f m s (Some e) = Some (Inl (StartMoreThanEnd s e))
         \<and> getKeys f m s (Some e) = Some (Inl (StartMoreThanEnd s e))
         \<and> LineMap_set f t s (Some e) m = Some (Inl (StartMoreThanEnd s e), m)"
  using assms by (simp add: filled_def getKeys_def LineMap_set_def assertRange_def end_or_def)

text \<open>C8 at \<^verbatim>\<open>start = 20\<close>, \<^verbatim>\<open>end = 10\<close> on a fresh map.\<close>

theorem C8_range_validity_witness:
  "(10::int) < 20
   \<and> filled 0 (new_LineMap :: string LineMap) 20 (Some 10) = Some (Inl (StartMoreThanEnd 20 10))
   \<and> getKeys 0 (new_LineMap :: string LineMap) 20 (Some 10) = Some (Inl (StartMoreThanEnd 20 10))
   \<and> LineMap_set 0 ''one'' 20 (Some 10) new_LineMap
       = Some (Inl (StartMoreThanEnd 20 10), new_LineMap)"
proof -
  have h: "(10::int) < 20" by simp
  show ?thesis
    using h C8_range_validity[OF h, of 0 "new_LineMap :: string LineMap" "''one''"] by simp
qed

subsection \<open>The index holds every token once\<close>

lemma LineMap_set_keys:
  "LineMap_set f t s eo m = Some (r, m') \<Longrightarrow> distinct (map fst (tokenRangeMap m))
     \<Longrightarrow> distinct (map fst (tokenRangeMap m'))"
  by (auto simp: LineMap_set_def distinct_update
           split: sum.splits option.splits if_splits prod.splits bind_splits)

lemma LineMap_remove_keys:
  "LineMap_remove f t m = Some (r, m') \<Longrightarrow> distinct (map fst (tokenRangeMap m))
     \<Longrightarrow> distinct (map fst (tokenRangeMap m'))"
  by (auto simp: LineMap_remove_def distinct_delete split: if_splits prod.splits bind_splits)

lemma run_keys:
  "run f calls m = Some m' \<Longrightarrow> distinct (map fst (tokenRangeMap m))
     \<Longrightarrow> distinct (map fst (tokenRangeMap m'))"
proof (induction calls arbitrary: m)
  case Nil
  then show ?case by simp
next
  case (Cons c calls)
  show ?case
  proof (cases c)
    case (SetCall token s eo)
    with Cons.prems obtain r m1 where
      "LineMap_set f token s eo m = Some (r, m1)" "run f calls m1 = Some m'"
      by (auto split: option.splits)
    with Cons.IH[of m1] LineMap_set_keys[of f token s eo m r m1] Cons.prems(2)
    show ?thesis by blast
  next
    case (RemoveCall token)
    with Cons.prems obtain r m1 where
      "LineMap_remove f token m = Some (r, m1)" "run f calls m1 = Some m'"
      by (auto split: option.splits)
    with Cons.IH[of m1] LineMap_remove_keys[of f token m r m1] Cons.prems(2)
    show ?thesis by blast
  qed
qed

lemma reachable_keys: "reachable m \<Longrightarrow> distinct (map fst (tokenRangeMap m))"
  unfolding reachable_def using run_keys[of _ _ new_LineMap m] by (auto simp: new_LineMap_def)

text \<open>
  C9. In every state that calls of \<^verbatim>\<open>set\<close> and \<^verbatim>\<open>remove\<close> reach from a fresh map,
  \<^verbatim>\<open>has(t)\<close> is true exactly when \<^verbatim>\<open>getRange(t)\<close> is not absent, and \<^verbatim>\<open>size\<close> is
  the number of tokens for which \<^verbatim>\<open>has\<close> is true. The three observers read the index
  only: replacing the root and the store of nodes changes none of their answers.
\<close>

theorem C9_observers_agree:
  assumes "reachable m"
  shows "(has m t \<longleftrightarrow> getRange m t \<noteq> None)
         \<and> LineMap_size m = card {t. has m t}
         \<and> has (m\<lparr>rootNode := r, nodes := h\<rparr>) t = has m t
         \<and> getRange (m\<lparr>rootNode := r, nodes := h\<rparr>) t = getRange m t
         \<and> LineMap_size (m\<lparr>rootNode := r, nodes := h\<rparr>) = LineMap_size m"
proof -
  from assms have d: "distinct (map fst (tokenRangeMap m))" by (rule reachable_keys)
  have "{t. has m t} = set (map fst (tokenRangeMap m))"
    by (auto simp: has_def map_of_eq_None_iff)
  with d have "card {t. has m t} = length (tokenRangeMap m)"
    using distinct_card[of "map fst (tokenRangeMap m)"] by simp
  then show ?thesis
    by (auto simp: has_def getRange_def LineMap_size_def split: option.splits)
qed

text \<open>
  C9 on the map after \<^verbatim>\<open>set('one', 10, 20)\<close>, \<^verbatim>\<open>set('two', 30, 40)\<close> and
  \<^verbatim>\<open>remove('one')\<close>: the state is reached, 'two' is the one token it holds.
\<close>

theorem C9_observers_agree_witness:
  "case run 5 [SetCall ''one'' 10 (Some 20), SetCall ''two'' 30 (Some 40), RemoveCall ''one'']
          new_LineMap of
     None \<Rightarrow> False
   | Some m \<Rightarrow>
       reachable m
       \<and> has m ''two'' \<and> getRange m ''two'' = Some (30, 40)
       \<and> \<not> has m ''one'' \<and> getRange m ''one'' = None
       \<and> LineMap_size m = 1 \<and> card {t. has m t} = 1"
proof -
  have "case run 5 [SetCall ''one'' 10 (Some 20), SetCall ''two'' 30 (Some 40),
                    RemoveCall ''one''] new_LineMap of
          None \<Rightarrow> False
        | Some m \<Rightarrow> getRange m ''two'' = Some (30, 40) \<and> getRange m ''one'' = None
            \<and> LineMap_size m = 1"
    by (simp add: model_defs del: Suc_numeral cong: bind_weak_cong let_weak_cong)
  then obtain m where
    m: "run 5 [SetCall ''one'' 10 (Some 20), SetCall ''two'' 30 (Some 40), RemoveCall ''one'']
          new_LineMap = Some m"
    and obs: "getRange m ''two'' = Some (30, 40)" "getRange m ''one'' = None" "LineMap_size m = 1"
    by (auto split: option.splits)
  from m have r: "reachable m" unfolding reachable_def by blast
  from C9_observers_agree[OF r, of "''two''"] C9_observers_agree[OF r, of "''one''"] obs r m
  show ?thesis by simp
qed

subsection \<open>getNodes on an ordered tree\<close>

lemma fragment_chain_le: "fragment_chain h a b ns \<Longrightarrow> a \<le> b"
proof (induction ns arbitrary: a)
  case Nil
  then show ?case by simp
next
  case (Cons k ns)
  from Cons.prems have "a \<le> end' (cells h k)" and "fragment_chain h (end' (cells h k)) b ns"
    by auto
  with Cons.IH[of "end' (cells h k)"] show ?case by linarith
qed

lemma fragment_chain_within:
  "fragment_chain h a b ns \<Longrightarrow> n \<in> set ns \<Longrightarrow> a \<le> start (cells h n) \<and> end' (cells h n) \<le> b"
proof (induction ns arbitrary: a)
  case Nil
  then show ?case by simp
next
  case (Cons k ns)
  show ?case
  proof (cases "n = k")
    case True
    with Cons.prems fragment_chain_le[of h "end' (cells h k)" b ns] show ?thesis by simp
  next
    case False
    with Cons.prems have "end' (cells h k) \<le> start (cells h n) \<and> end' (cells h n) \<le> b"
      using Cons.IH[of "end' (cells h k)"] by simp
    with Cons.prems show ?thesis by simp
  qed
qed

lemma fragment_chain_covers:
  "fragment_chain h a b ns \<Longrightarrow> a \<le> x \<Longrightarrow> x < b \<Longrightarrow>
     \<exists>n\<in>set ns. start (cells h n) \<le> x \<and> x < end' (cells h n)"
proof (induction ns arbitrary: a)
  case Nil
  then show ?case by simp
next
  case (Cons k ns)
  show ?case
  proof (cases "x < end' (cells h k)")
    case True
    with Cons.prems show ?thesis by auto
  next
    case False
    with Cons.prems Cons.IH[of "end' (cells h k)"] show ?thesis by auto
  qed
qed

text \<open>
  On an ordered tree, with fuel beyond the depth, \<^verbatim>\<open>getNodes\<close> returns exactly the
  nodes that pass its test. A point query must not sit on the end of a node: the
  descent to the right asks for \<^verbatim>\<open>end > node.end\<close>.
\<close>

lemma getNodes_shaped:
  assumes "shaped h p sh" "ordered h sh" "depth sh < f"
    and "s = e \<longrightarrow> (\<forall>n\<in>set (inorder sh). end' (cells h n) \<noteq> s)"
  shows "\<exists>ns. getNodes f h p s e = Some ns \<and> set ns = {n \<in> set (inorder sh). intersects h n s e}"
  using assms
proof (induction sh arbitrary: p f)
  case Tip
  then obtain f' where "f = Suc f'" by (cases f) auto
  with Tip show ?case by simp
next
  case (Br l a r)
  from Br.prems(3) obtain f' where f: "f = Suc f'" by (cases f) auto
  from Br.prems(1) have p: "p = Some a" and sl: "shaped h (lNode (cells h a)) l"
    and sr: "shaped h (rNode (cells h a)) r" by auto
  from Br.prems(2) have ol: "ordered h l" and or: "ordered h r"
    and lb: "\<forall>x\<in>set (inorder l). end' (cells h x) \<le> start (cells h a)"
    and rb: "\<forall>y\<in>set (inorder r). end' (cells h a) \<le> start (cells h y)"
    by (auto simp: ordered_def sorted_wrt_append)
  from Br.prems(3) f have dl: "depth l < f'" and dr: "depth r < f'" by auto
  from Br.prems(4) have pl: "s = e \<longrightarrow> (\<forall>n\<in>set (inorder l). end' (cells h n) \<noteq> s)"
    and pr: "s = e \<longrightarrow> (\<forall>n\<in>set (inorder r). end' (cells h n) \<noteq> s)"
    and pa: "s = e \<longrightarrow> end' (cells h a) \<noteq> s" by auto
  from Br.IH(1)[OF sl ol dl pl] obtain ls where
    ls: "getNodes f' h (lNode (cells h a)) s e = Some ls"
        "set ls = {n \<in> set (inorder l). intersects h n s e}" by blast
  from Br.IH(2)[OF sr or dr pr] obtain rs where
    rs: "getNodes f' h (rNode (cells h a)) s e = Some rs"
        "set rs = {n \<in> set (inorder r). intersects h n s e}" by blast
  have nl: "\<not> s < start (cells h a) \<Longrightarrow> {n \<in> set (inorder l). intersects h n s e} = {}"
    using lb by (fastforce simp: intersects_def)
  have nr: "\<not> e > end' (cells h a) \<Longrightarrow> {n \<in> set (inorder r). intersects h n s e} = {}"
    using rb pa by (fastforce simp: intersects_def)
  show ?case
    using ls rs nl nr by (auto simp: p f intersects_def)
qed

lemma set_fold_Set_add: "set (fold Set_add ts acc) = set ts \<union> set acc"
  by (induction ts arbitrary: acc) (auto simp: Set_add_def)

lemma set_fold_nodes:
  "set (fold (\<lambda>node result. fold Set_add (tokens (cells h node)) result) ns acc)
     = (\<Union>n\<in>set ns. set (tokens (cells h n))) \<union> set acc"
  by (induction ns arbitrary: acc) (auto simp: set_fold_Set_add)

lemma set_collectTokens: "set (collectTokens h ns) = (\<Union>n\<in>set ns. set (tokens (cells h n)))"
  by (simp add: collectTokens_def set_fold_nodes)

text \<open>
  C3. For a registered token \<open>t\<close> with range \<open>(a, b)\<close>, \<open>t\<close> is in
  \<^verbatim>\<open>getKeys(qs, qe)\<close> exactly when \<open>max(qs,a) < min(qe,b)\<close>, or \<open>qs = qe\<close> and
  \<open>qs = a\<close>. The tree that \<^verbatim>\<open>insert\<close> builds breaks this in both directions.

  After \<^verbatim>\<open>set('a', 0, 100)\<close> and \<^verbatim>\<open>set('b', 40, 60)\<close> the nodes are \<open>[0,40)\<close> with
  'a', \<open>[40,60)\<close> with 'a' and 'b', and \<open>[60,100)\<close> with 'a' and 'b': the branch that
  cuts a node at \<open>start\<close> gives the token to the whole right part \<open>[40,100)\<close>, and the
  cut at \<open>end\<close> that follows copies it into the left piece and leaves it in the right
  one. So \<^verbatim>\<open>getKeys(60, 100)\<close> contains 'b', whose range \<open>(40, 60)\<close> does not overlap
  the query.

  After \<^verbatim>\<open>set('a',10,20)\<close>, \<^verbatim>\<open>set('L',0,2)\<close>, \<^verbatim>\<open>set('R',40,50)\<close>,
  \<^verbatim>\<open>set('RL',30,35)\<close>, \<^verbatim>\<open>set('RR',60,70)\<close> and \<^verbatim>\<open>set('t',15,80)\<close>, the call
  \<^verbatim>\<open>balance\<close> inside the first cut makes the node of 'RL' the root, and the rest of
  \<^verbatim>\<open>insert\<close> goes on from there to the left and to the right without looking at the
  root itself: \<^verbatim>\<open>getKeys(30, 35)\<close> is 'RL' alone, without 't', whose range
  \<open>(15, 80)\<close> overlaps the query.
\<close>

theorem C3_insert_misplaces_token:
  "(case run 5 [SetCall ''a'' 0 (Some 100), SetCall ''b'' 40 (Some 60)] new_LineMap of
      None \<Rightarrow> False
    | Some m \<Rightarrow>
        getRange m ''b'' = Some (40, 60)
        \<and> \<not> spec_overlap 60 100 40 60
        \<and> getKeys 5 m 60 (Some 100) = Some (Inr [''a'', ''b'']))
   \<and> (case run 9 [SetCall ''a'' 10 (Some 20), SetCall ''L'' 0 (Some 2), SetCall ''R'' 40 (Some 50),
                   SetCall ''RL'' 30 (Some 35), SetCall ''RR'' 60 (Some 70),
                   SetCall ''t'' 15 (Some 80)] new_LineMap of
      None \<Rightarrow> False
    | Some m \<Rightarrow>
        getRange m ''t'' = Some (15, 80)
        \<and> spec_overlap 30 35 15 80
        \<and> getKeys 9 m 30 (Some 35) = Some (Inr [''RL'']))"
  by (simp add: model_defs spec_overlap_def del: Suc_numeral cong: bind_weak_cong let_weak_cong)

text \<open>
  C10. A token registered by \<^verbatim>\<open>set(t, p, p)\<close> or \<^verbatim>\<open>set(t, p)\<close> is counted by
  \<^verbatim>\<open>has\<close> and \<^verbatim>\<open>size\<close>, \<^verbatim>\<open>filled(p, p)\<close> is true, and \<^verbatim>\<open>getKeys\<close>
  never contains \<open>t\<close>. After \<^verbatim>\<open>set('one', 10, 20)\<close>, the call
  \<^verbatim>\<open>set('t', 15, 15)\<close> cuts the node at 15 and puts 't' into the right part
  \<open>[15, 20)\<close>, so \<^verbatim>\<open>getKeys(16, 19)\<close> contains 't'; and the call \<^verbatim>\<open>set('t', 20)\<close>
  adds nothing to the tree, so \<^verbatim>\<open>filled(20, 20)\<close> is false.
\<close>

theorem C10_degenerate_counterexample:
  "(case run 5 [SetCall ''one'' 10 (Some 20), SetCall ''t'' 15 (Some 15)] new_LineMap of
      None \<Rightarrow> False
    | Some m \<Rightarrow>
        has m ''t'' \<and> getRange m ''t'' = Some (15, 15)
        \<and> getKeys 5 m 16 (Some 19) = Some (Inr [''one'', ''t'']))
   \<and> (case run 5 [SetCall ''one'' 10 (Some 20), SetCall ''t'' 20 None] new_LineMap of
      None \<Rightarrow> False
    | Some m \<Rightarrow>
        has m ''t'' \<and> getRange m ''t'' = Some (20, 20)
        \<and> filled 5 m 20 (Some 20) = Some (Inr False))"
  by (simp add: model_defs del: Suc_numeral cong: bind_weak_cong let_weak_cong)

end
